theory Spec2Isabelle
  imports Main "HOL-Library.Word"
begin

section \<open>Collaborators of the relay connection service\<close>

text \<open>
  The service \<open>RelayConnection\<close> (relay-connection.ts) talks to four injected services.
  What it reads from them is collected in one record: the answer of
  \<open>identity.exists()\<close>, the field \<open>identity.publicKey\<close> (a byte array or null), the
  address \<open>relayManager.getRelay().socket\<close> and the lookup \<open>intl.t\<close> of localized
  strings. Every operation takes the collaborators as they are when it runs.
\<close>

type_synonym byte = "8 word"

record Env =
  identity_exists :: bool
  identity_publicKey :: "byte list option"
  relay_socket :: string
  intl_t :: "string \<Rightarrow> string"

text \<open>
  Modelled from the spec: \<open>toHex\<close> of \<open>emberclear/src/utils/string-encoding\<close> is imported
  by the service, and its source is not among the sources modelled here. The specification calls
  the result the hex-encoded public key and gives the bytes \<open>0x0a, 0xb1\<close> as \<open>0ab1\<close>: two
  lower-case hexadecimal digits for every byte, in order.
\<close>

definition hexDigit :: "nat \<Rightarrow> char" where
  "hexDigit n = ''0123456789abcdef'' ! n"

definition toHex :: "byte list \<Rightarrow> string" where
  "toHex bytes = concat (map (\<lambda>b. [hexDigit (unat b div 16), hexDigit (unat b mod 16)]) bytes)"

section \<open>The objects of the phoenix client\<close>

text \<open>
  \<open>Socket\<close> and \<open>Channel\<close> come from the phoenix library. The service only constructs
  them, registers callbacks on them and calls \<open>connect\<close>, \<open>disconnect\<close>, \<open>channel\<close>,
  \<open>join\<close> and \<open>push\<close>. Each object lives in a heap (a list, the reference is the index),
  so that a reference dropped by the service still denotes its object.
\<close>

datatype handler =
    OnSocketError | OnSocketClose | OnChannelError | OnChannelClose
  | HandleMessage | HandleConnected | HandleError | LogJoinTimeout

datatype transport = Idle | Opened | Closed

record Socket =
  endPoint :: string
  uid :: string
  transport :: transport
  errorCallbacks :: "handler list"
  closeCallbacks :: "handler list"

datatype join_state = NotJoined | Joining | Joined | JoinErrored | JoinTimedOut

record Channel =
  topic :: string
  owner :: nat
  joinState :: join_state
  bindings :: "(string \<times> handler) list"
  joinHooks :: "(string \<times> handler) list"

record ChatPayload =
  to :: string
  message :: string

text \<open>Everything the service does to the outside world, in the order it does it.\<close>

datatype effect =
    ToastInfo string | ToastError string | ToastSuccess string
  | ConsoleError string | ConsoleLog string | ConsoleInfo string
  | SocketConnect nat | SocketDisconnect nat
  | ChannelJoin nat | ChannelPush nat string ChatPayload
  | DispatcherPingAll | ProcessorReceive string

fun is_network :: "effect \<Rightarrow> bool" where
  "is_network (SocketConnect _) = True"
| "is_network (SocketDisconnect _) = True"
| "is_network (ChannelJoin _) = True"
| "is_network (ChannelPush _ _ _) = True"
| "is_network _ = False"

section \<open>The service state\<close>

record RelayConnection =
  socket :: "nat option"
  channel :: "nat option"
  connected :: bool
  sockets :: "Socket list"
  channels :: "Channel list"
  trace :: "effect list"

definition initial :: RelayConnection where
  "initial = \<lparr>socket = None, channel = None, connected = False,
              sockets = [], channels = [], trace = []\<rparr>"

definition emit :: "effect \<Rightarrow> RelayConnection \<Rightarrow> RelayConnection" where
  "emit e s = s\<lparr>trace := trace s @ [e]\<rparr>"

subsection \<open>Library calls\<close>

definition new_Socket :: "string \<Rightarrow> string \<Rightarrow> RelayConnection \<Rightarrow> nat \<times> RelayConnection" where
  "new_Socket url u s =
     (length (sockets s),
      s\<lparr>sockets := sockets s @
         [\<lparr>endPoint = url, uid = u, transport = Idle,
           errorCallbacks = [], closeCallbacks = []\<rparr>]\<rparr>)"

definition update_socket :: "nat \<Rightarrow> (Socket \<Rightarrow> Socket) \<Rightarrow> RelayConnection \<Rightarrow> RelayConnection" where
  "update_socket k f s =
     (if k < length (sockets s) then s\<lparr>sockets := (sockets s)[k := f (sockets s ! k)]\<rparr> else s)"

definition update_channel :: "nat \<Rightarrow> (Channel \<Rightarrow> Channel) \<Rightarrow> RelayConnection \<Rightarrow> RelayConnection" where
  "update_channel c f s =
     (if c < length (channels s) then s\<lparr>channels := (channels s)[c := f (channels s ! c)]\<rparr> else s)"

definition socket_onError :: "nat \<Rightarrow> handler \<Rightarrow> RelayConnection \<Rightarrow> RelayConnection" where
  "socket_onError k h = update_socket k (\<lambda>x. x\<lparr>errorCallbacks := errorCallbacks x @ [h]\<rparr>)"

definition socket_onClose :: "nat \<Rightarrow> handler \<Rightarrow> RelayConnection \<Rightarrow> RelayConnection" where
  "socket_onClose k h = update_socket k (\<lambda>x. x\<lparr>closeCallbacks := closeCallbacks x @ [h]\<rparr>)"

text \<open>
  \<open>socket.disconnect()\<close> closes the transport and does not run the close callbacks
  itself; when the transport reports a close, that is an event of its own (see \<open>deliver\<close>).
\<close>

definition socket_connect :: "nat \<Rightarrow> RelayConnection \<Rightarrow> RelayConnection" where
  "socket_connect k s = emit (SocketConnect k) (update_socket k (\<lambda>x. x\<lparr>transport := Opened\<rparr>) s)"

definition socket_disconnect :: "nat \<Rightarrow> RelayConnection \<Rightarrow> RelayConnection" where
  "socket_disconnect k s = emit (SocketDisconnect k) (update_socket k (\<lambda>x. x\<lparr>transport := Closed\<rparr>) s)"

definition socket_channel :: "nat \<Rightarrow> string \<Rightarrow> RelayConnection \<Rightarrow> nat \<times> RelayConnection" where
  "socket_channel k name s =
     (length (channels s),
      s\<lparr>channels := channels s @
         [\<lparr>topic = name, owner = k, joinState = NotJoined, bindings = [], joinHooks = []\<rparr>]\<rparr>)"

text \<open>
  \<open>channel.onError(f)\<close> and \<open>channel.onClose(f)\<close> are the library's
  \<open>channel.on("phx_error", f)\<close> and \<open>channel.on("phx_close", f)\<close>. Constructing a socket
  or a channel object sends nothing; \<open>connect\<close>, \<open>disconnect\<close>, \<open>join\<close> and \<open>push\<close> do.
\<close>

definition channel_on :: "nat \<Rightarrow> string \<Rightarrow> handler \<Rightarrow> RelayConnection \<Rightarrow> RelayConnection" where
  "channel_on c event h = update_channel c (\<lambda>x. x\<lparr>bindings := bindings x @ [(event, h)]\<rparr>)"

definition channel_join :: "nat \<Rightarrow> RelayConnection \<Rightarrow> RelayConnection" where
  "channel_join c s = emit (ChannelJoin c) (update_channel c (\<lambda>x. x\<lparr>joinState := Joining\<rparr>) s)"

definition join_receive :: "nat \<Rightarrow> string \<Rightarrow> handler \<Rightarrow> RelayConnection \<Rightarrow> RelayConnection" where
  "join_receive c status h = update_channel c (\<lambda>x. x\<lparr>joinHooks := joinHooks x @ [(status, h)]\<rparr>)"

section \<open>The operations of the service\<close>

text \<open>
  \<open>send\<close> returns either the value of \<open>console.error(...)\<close>, which is \<open>undefined\<close>,
  or a new promise whose executor pushes \<open>chat\<close> on the channel at once. The promise is
  named by the position of its push in the trace.
\<close>

datatype send_result = Undefined | Promise nat

definition send :: "Env \<Rightarrow> string \<Rightarrow> string \<Rightarrow> RelayConnection \<Rightarrow> send_result \<times> RelayConnection" where
  "send env recipient data s =
     (let payload = \<lparr>to = recipient, message = data\<rparr> in
      case channel s of
        None \<Rightarrow> (Undefined, emit (ConsoleError (intl_t env ''connection.errors.send.notConnected'')) s)
      | Some c \<Rightarrow> (Promise (length (trace s)), emit (ChannelPush c ''chat'' payload) s))"

definition canConnect :: "Env \<Rightarrow> bool" where
  "canConnect env = identity_exists env"

definition userChannelId :: "Env \<Rightarrow> string" where
  "userChannelId env =
     (case identity_publicKey env of None \<Rightarrow> [] | Some publicKey \<Rightarrow> toHex publicKey)"

definition subscribeToChannel :: "Env \<Rightarrow> string \<Rightarrow> RelayConnection \<Rightarrow> RelayConnection" where
  "subscribeToChannel env channelName s =
     (case socket s of
        None \<Rightarrow> emit (ToastError (intl_t env ''connection.errors.subscribe.notConnected'')) s
      | Some sock \<Rightarrow>
          (let (chan, s1) = socket_channel sock channelName s;
               s2 = s1\<lparr>channel := Some chan\<rparr>;
               s3 = channel_on chan ''phx_error'' OnChannelError s2;
               s4 = channel_on chan ''phx_close'' OnChannelClose s3;
               s5 = channel_on chan ''chat'' HandleMessage s4;
               s6 = channel_join chan s5;
               s7 = join_receive chan ''ok'' HandleConnected s6;
               s8 = join_receive chan ''error'' HandleError s7
           in join_receive chan ''timeout'' LogJoinTimeout s8))"

text \<open>
  \<open>connect\<close> awaits \<open>canConnect()\<close> and reads \<open>this.connected\<close> after the await. The
  state given to the model is the state at that moment; from there on the body runs without
  interruption.
\<close>

definition connect :: "Env \<Rightarrow> RelayConnection \<Rightarrow> RelayConnection" where
  "connect env s =
     (if \<not> canConnect env \<or> connected s then s
      else
        (let s1 = emit (ToastInfo (intl_t env ''connection.connecting'')) s;
             publicKey = userChannelId env;
             url = relay_socket env;
             (sock, s2) = new_Socket url publicKey s1;
             s3 = s2\<lparr>socket := Some sock\<rparr>;
             s4 = socket_onError sock OnSocketError s3;
             s5 = socket_onClose sock OnSocketClose s4;
             s6 = socket_connect sock s5;
             s7 = subscribeToChannel env (''user:'' @ publicKey) s6;
             s8 = s7\<lparr>connected := True\<rparr>
         in emit DispatcherPingAll s8))"

subsection \<open>Event handlers\<close>

definition onSocketError :: "Env \<Rightarrow> RelayConnection \<Rightarrow> RelayConnection" where
  "onSocketError env s = emit (ToastError (intl_t env ''connection.status.socket.error'')) s"

definition onSocketClose :: "Env \<Rightarrow> RelayConnection \<Rightarrow> RelayConnection" where
  "onSocketClose env s =
     (emit (ToastInfo (intl_t env ''connection.status.socket.close'')) s)\<lparr>connected := False\<rparr>"

definition onChannelError :: "RelayConnection \<Rightarrow> RelayConnection" where
  "onChannelError s =
     (let s1 = emit (ConsoleLog ''channel errored'') s in
      case socket s1 of None \<Rightarrow> s1 | Some k \<Rightarrow> socket_disconnect k s1)"

definition onChannelClose :: "RelayConnection \<Rightarrow> RelayConnection" where
  "onChannelClose s =
     (let s1 = emit (ConsoleLog ''channel closed'') s in
      case socket s1 of None \<Rightarrow> s1 | Some k \<Rightarrow> socket_disconnect k s1)"

definition handleError :: "string \<Rightarrow> RelayConnection \<Rightarrow> RelayConnection" where
  "handleError data s = emit (ConsoleError data) s"

definition handleConnected :: "Env \<Rightarrow> RelayConnection \<Rightarrow> RelayConnection" where
  "handleConnected env s = emit (ToastSuccess (intl_t env ''connection.connected'')) s"

definition handleMessage :: "string \<Rightarrow> RelayConnection \<Rightarrow> RelayConnection" where
  "handleMessage data s = emit (ProcessorReceive data) s"

definition logJoinTimeout :: "Env \<Rightarrow> RelayConnection \<Rightarrow> RelayConnection" where
  "logJoinTimeout env s = emit (ConsoleInfo (intl_t env ''connection.status.timeout'')) s"

section \<open>Events delivered by the library\<close>

text \<open>
  The library calls back what was registered. A reply to a join or to a push is one of
  \<open>ok\<close> (with the server's payload), \<open>error\<close> (with the server's reason) and
  \<open>timeout\<close> (the client's own timer, no payload).
\<close>

datatype outcome = Ok string | Error string | Timeout

fun status_of :: "outcome \<Rightarrow> string" where
  "status_of (Ok _) = ''ok''"
| "status_of (Error _) = ''error''"
| "status_of Timeout = ''timeout''"

fun data_of :: "outcome \<Rightarrow> string" where
  "data_of (Ok d) = d"
| "data_of (Error d) = d"
| "data_of Timeout = []"

fun joined_as :: "outcome \<Rightarrow> join_state" where
  "joined_as (Ok _) = Joined"
| "joined_as (Error _) = JoinErrored"
| "joined_as Timeout = JoinTimedOut"

fun call :: "Env \<Rightarrow> string \<Rightarrow> RelayConnection \<Rightarrow> handler \<Rightarrow> RelayConnection" where
  "call env data s OnSocketError = onSocketError env s"
| "call env data s OnSocketClose = onSocketClose env s"
| "call env data s OnChannelError = onChannelError s"
| "call env data s OnChannelClose = onChannelClose s"
| "call env data s HandleMessage = handleMessage data s"
| "call env data s HandleConnected = handleConnected env s"
| "call env data s HandleError = handleError data s"
| "call env data s LogJoinTimeout = logJoinTimeout env s"

definition fire :: "Env \<Rightarrow> string \<Rightarrow> handler list \<Rightarrow> RelayConnection \<Rightarrow> RelayConnection" where
  "fire env data hs s = foldl (call env data) s hs"

definition bound_to :: "string \<Rightarrow> (string \<times> handler) list \<Rightarrow> handler list" where
  "bound_to name bs = map snd (filter (\<lambda>b. fst b = name) bs)"

datatype event =
    SocketErrored nat
  | SocketClosed nat
  | ChannelEvent nat string string
  | JoinReplied nat outcome

fun deliver :: "Env \<Rightarrow> event \<Rightarrow> RelayConnection \<Rightarrow> RelayConnection" where
  "deliver env (SocketErrored k) s =
     (if k < length (sockets s) then fire env [] (errorCallbacks (sockets s ! k)) s else s)"
| "deliver env (SocketClosed k) s =
     (if k < length (sockets s)
      then fire env [] (closeCallbacks (sockets s ! k))
             (update_socket k (\<lambda>x. x\<lparr>transport := Closed\<rparr>) s)
      else s)"
| "deliver env (ChannelEvent c name data) s =
     (if c < length (channels s) then fire env data (bound_to name (bindings (channels s ! c))) s
      else s)"
| "deliver env (JoinReplied c r) s =
     (if c < length (channels s) \<and> joinState (channels s ! c) = Joining
      then fire env (data_of r) (bound_to (status_of r) (joinHooks (channels s ! c)))
             (update_channel c (\<lambda>x. x\<lparr>joinState := joined_as r\<rparr>) s)
      else s)"

subsection \<open>The future returned by send\<close>

text \<open>
  The promise built in \<open>send\<close> hands \<open>resolve\<close> to the push's \<open>ok\<close> hook, \<open>reject\<close> to
  its \<open>error\<close> hook, and rejects with \<open>{reason: ...}\<close> on \<open>timeout\<close>. A promise settles
  once: resolving or rejecting a settled promise changes nothing.
\<close>

datatype settlement = Reply string | Reason string

datatype promise = Pending | Resolved settlement | Rejected settlement

fun resolve :: "settlement \<Rightarrow> promise \<Rightarrow> promise" where
  "resolve v Pending = Resolved v"
| "resolve v p = p"

fun reject :: "settlement \<Rightarrow> promise \<Rightarrow> promise" where
  "reject v Pending = Rejected v"
| "reject v p = p"

fun push_receive :: "Env \<Rightarrow> promise \<Rightarrow> outcome \<Rightarrow> promise" where
  "push_receive env p (Ok r) = resolve (Reply r) p"
| "push_receive env p (Error r) = reject (Reply r) p"
| "push_receive env p Timeout = reject (Reason (intl_t env ''models.message.errors.timeout'')) p"

section \<open>Runs of the service\<close>

datatype action =
    Send Env string string
  | Connect Env
  | Subscribe Env string
  | Deliver Env event

fun step :: "RelayConnection \<Rightarrow> action \<Rightarrow> RelayConnection" where
  "step s (Send env recipient data) = snd (send env recipient data s)"
| "step s (Connect env) = connect env s"
| "step s (Subscribe env name) = subscribeToChannel env name s"
| "step s (Deliver env e) = deliver env e s"

definition run :: "action list \<Rightarrow> RelayConnection" where
  "run acts = foldl step initial acts"

text \<open>A fixed set of collaborators for concrete runs: an identity with the key \<open>0a b1\<close>.\<close>

definition env0 :: Env where
  "env0 = \<lparr>identity_exists = True, identity_publicKey = Some [0x0a, 0xb1],
           relay_socket = ''wss://relay.example/socket'', intl_t = (\<lambda>key. key)\<rparr>"

text \<open>An identity that reports itself as existing while it has no public key.\<close>

definition env_nokey :: Env where
  "env_nokey = \<lparr>identity_exists = True, identity_publicKey = None,
                relay_socket = ''wss://relay.example/socket'', intl_t = (\<lambda>key. key)\<rparr>"


text \<open>No identity at all: \<open>exists()\<close> answers false and there is no key.\<close>

definition env_none :: Env where
  "env_none = \<lparr>identity_exists = False, identity_publicKey = None,
               relay_socket = ''wss://relay.example/socket'', intl_t = (\<lambda>key. key)\<rparr>"

section \<open>Notions used by the properties\<close>

text \<open>What \<open>send\<close> hands back is a future only when it is a promise.\<close>

fun is_future :: "send_result \<Rightarrow> bool" where
  "is_future (Promise _) = True"
| "is_future Undefined = False"

text \<open>
  The channel object that \<open>subscribeToChannel\<close> leaves in the heap, and the socket object
  that \<open>connect\<close> leaves there.
\<close>

definition subscribed_channel :: "nat \<Rightarrow> string \<Rightarrow> Channel" where
  "subscribed_channel k name =
     \<lparr>topic = name, owner = k, joinState = Joining,
      bindings = [(''phx_error'', OnChannelError), (''phx_close'', OnChannelClose),
                  (''chat'', HandleMessage)],
      joinHooks = [(''ok'', HandleConnected), (''error'', HandleError),
                   (''timeout'', LogJoinTimeout)]\<rparr>"

definition opened_socket :: "Env \<Rightarrow> Socket" where
  "opened_socket env =
     \<lparr>endPoint = relay_socket env, uid = userChannelId env, transport = Opened,
      errorCallbacks = [OnSocketError], closeCallbacks = [OnSocketClose]\<rparr>"

text \<open>
  A live socket is one whose transport is open; a confirmed join is one that the server
  answered with \<open>ok\<close>. The weaker notions: \<open>connect()\<close> has been called on the socket,
  \<open>join()\<close> has been called on the channel.
\<close>

definition socket_live :: "RelayConnection \<Rightarrow> bool" where
  "socket_live s =
     (case socket s of None \<Rightarrow> False
      | Some k \<Rightarrow> k < length (sockets s) \<and> transport (sockets s ! k) = Opened)"

definition join_confirmed :: "RelayConnection \<Rightarrow> bool" where
  "join_confirmed s =
     (case channel s of None \<Rightarrow> False
      | Some c \<Rightarrow> c < length (channels s) \<and> joinState (channels s ! c) = Joined)"

definition socket_started :: "RelayConnection \<Rightarrow> bool" where
  "socket_started s =
     (case socket s of None \<Rightarrow> False
      | Some k \<Rightarrow> k < length (sockets s) \<and> transport (sockets s ! k) \<noteq> Idle)"

definition join_issued :: "RelayConnection \<Rightarrow> bool" where
  "join_issued s =
     (case channel s of None \<Rightarrow> False
      | Some c \<Rightarrow> c < length (channels s) \<and> joinState (channels s ! c) \<noteq> NotJoined)"

definition refs_ok :: "RelayConnection \<Rightarrow> bool" where
  "refs_ok s \<longleftrightarrow>
     (case socket s of None \<Rightarrow> True
      | Some k \<Rightarrow> k < length (sockets s) \<and> transport (sockets s ! k) \<noteq> Idle) \<and>
     (case channel s of None \<Rightarrow> True
      | Some c \<Rightarrow> c < length (channels s) \<and> joinState (channels s ! c) \<noteq> NotJoined) \<and>
     (connected s \<longrightarrow> socket s \<noteq> None \<and> channel s \<noteq> None)"

section \<open>Closed forms of the operations\<close>

lemma update_channel_fresh:
  "channels s = cs @ [x] \<Longrightarrow> update_channel (length cs) f s = s\<lparr>channels := cs @ [f x]\<rparr>"
  by (simp add: update_channel_def)

lemma update_socket_fresh:
  "sockets s = ks @ [x] \<Longrightarrow> update_socket (length ks) f s = s\<lparr>sockets := ks @ [f x]\<rparr>"
  by (simp add: update_socket_def)

lemma subscribe_some:
  assumes "socket s = Some k"
  shows "subscribeToChannel env name s =
     s\<lparr>channel := Some (length (channels s)),
       channels := channels s @ [subscribed_channel k name],
       trace := trace s @ [ChannelJoin (length (channels s))]\<rparr>"
  using assms
  by (simp add: subscribeToChannel_def socket_channel_def channel_on_def channel_join_def
      join_receive_def emit_def update_channel_fresh subscribed_channel_def)

lemma subscribe_none:
  "socket s = None \<Longrightarrow> subscribeToChannel env name s =
     emit (ToastError (intl_t env ''connection.errors.subscribe.notConnected'')) s"
  by (simp add: subscribeToChannel_def)

lemma connect_guarded: "\<not> canConnect env \<or> connected s \<Longrightarrow> connect env s = s"
  by (auto simp add: connect_def)

lemma connect_proceeds:
  assumes "canConnect env" "\<not> connected s"
  shows "connect env s =
     s\<lparr>socket := Some (length (sockets s)),
       channel := Some (length (channels s)),
       connected := True,
       sockets := sockets s @ [opened_socket env],
       channels := channels s @
          [subscribed_channel (length (sockets s)) (''user:'' @ userChannelId env)],
       trace := trace s @
          [ToastInfo (intl_t env ''connection.connecting''),
           SocketConnect (length (sockets s)),
           ChannelJoin (length (channels s)),
           DispatcherPingAll]\<rparr>"
  using assms
  by (simp add: connect_def new_Socket_def socket_onError_def socket_onClose_def Let_def
      socket_connect_def emit_def update_socket_fresh subscribe_some opened_socket_def)

subsection \<open>References stay inside the heap\<close>

text \<open>
  Whatever the service and the library do, the two references of the service denote
  objects of the heap, the socket has been told to connect and the channel to join.
\<close>

lemma refs_ok_emit [simp]: "refs_ok (emit e s) = refs_ok s"
  by (simp add: refs_ok_def emit_def split: option.splits)

lemma refs_ok_close:
  "refs_ok s \<Longrightarrow> refs_ok (update_socket k (\<lambda>x. x\<lparr>transport := Closed\<rparr>) s)"
  by (auto simp add: refs_ok_def update_socket_def nth_list_update split: option.splits)

lemma refs_ok_join_reply:
  "refs_ok s \<Longrightarrow> refs_ok (update_channel c (\<lambda>x. x\<lparr>joinState := joined_as r\<rparr>) s)"
  by (cases r) (auto simp add: refs_ok_def update_channel_def nth_list_update split: option.splits)

lemma refs_ok_disconnect: "refs_ok s \<Longrightarrow> refs_ok (socket_disconnect k s)"
  by (simp add: socket_disconnect_def refs_ok_close)

lemma refs_ok_call: "refs_ok s \<Longrightarrow> refs_ok (call env d s h)"
proof (cases h)
  case OnSocketClose
  assume "refs_ok s"
  then show ?thesis using OnSocketClose
    by (simp add: onSocketClose_def refs_ok_def emit_def split: option.splits)
next
  case OnChannelError
  assume "refs_ok s"
  then show ?thesis using OnChannelError
    by (simp add: onChannelError_def Let_def refs_ok_disconnect split: option.splits)
next
  case OnChannelClose
  assume "refs_ok s"
  then show ?thesis using OnChannelClose
    by (simp add: onChannelClose_def Let_def refs_ok_disconnect split: option.splits)
qed (simp_all add: onSocketError_def handleMessage_def handleConnected_def handleError_def
      logJoinTimeout_def)

lemma refs_ok_fire: "refs_ok s \<Longrightarrow> refs_ok (fire env d hs s)"
  unfolding fire_def
  by (induction hs arbitrary: s) (simp_all add: refs_ok_call)

lemma refs_ok_deliver: "refs_ok s \<Longrightarrow> refs_ok (deliver env e s)"
  by (cases e) (simp_all add: refs_ok_fire refs_ok_close refs_ok_join_reply)

lemma refs_ok_subscribe: "refs_ok s \<Longrightarrow> refs_ok (subscribeToChannel env name s)"
proof (cases "socket s")
  case None
  assume "refs_ok s"
  then show ?thesis using None by (simp add: subscribe_none)
next
  case (Some k)
  assume "refs_ok s"
  then show ?thesis using Some
    by (auto simp add: subscribe_some refs_ok_def subscribed_channel_def nth_append
        split: option.splits)
qed

lemma refs_ok_connect: "refs_ok s \<Longrightarrow> refs_ok (connect env s)"
proof (cases "\<not> canConnect env \<or> connected s")
  case True
  assume "refs_ok s"
  then show ?thesis using True by (simp add: connect_guarded)
next
  case False
  then have "canConnect env" "\<not> connected s" by simp_all
  then show ?thesis
    by (simp add: connect_proceeds refs_ok_def subscribed_channel_def opened_socket_def)
qed

lemma refs_ok_send: "refs_ok s \<Longrightarrow> refs_ok (snd (send env recipient data s))"
  by (simp add: send_def split: option.splits)

lemma refs_ok_step: "refs_ok s \<Longrightarrow> refs_ok (step s a)"
  by (cases a) (simp_all add: refs_ok_send refs_ok_connect refs_ok_subscribe refs_ok_deliver)

lemma refs_ok_foldl: "refs_ok s \<Longrightarrow> refs_ok (foldl step s acts)"
  by (induction acts arbitrary: s) (simp_all add: refs_ok_step)

lemma refs_ok_initial: "refs_ok initial"
  by (simp add: refs_ok_def initial_def)

lemma refs_ok_run: "refs_ok (run acts)"
  unfolding run_def by (rule refs_ok_foldl [OF refs_ok_initial])

section \<open>Concrete runs\<close>

lemma userChannelId_env0: "userChannelId env0 = ''0ab1''"
  by (simp add: userChannelId_def env0_def toHex_def hexDigit_def)

lemma canConnect_env0: "canConnect env0"
  by (simp add: canConnect_def env0_def)

lemma connect_env0_initial:
  "connect env0 initial =
     \<lparr>socket = Some 0, channel = Some 0, connected = True,
      sockets = [opened_socket env0],
      channels = [subscribed_channel 0 ''user:0ab1''],
      trace = [ToastInfo ''connection.connecting'', SocketConnect 0, ChannelJoin 0,
               DispatcherPingAll]\<rparr>"
proof -
  have "\<not> connected initial" by (simp add: initial_def)
  from connect_proceeds [OF canConnect_env0 this] show ?thesis
    by (simp add: initial_def userChannelId_env0) (simp add: env0_def)
qed

section \<open>Properties of the service\<close>

text \<open>
  C9. The identifier of the user's own channel is a function of the public key alone: two
  identities with the same key get the same \<open>userChannelId\<close>. For the key bytes
  \<open>0x0a, 0xb1\<close> the channel name built in \<open>connect\<close> is \<open>user:0ab1\<close>, and it is the
  topic of the channel that \<open>connect\<close> subscribes to. (The hexadecimal encoding is the one
  modelled from the specification.)
\<close>

theorem userChannelId_deterministic:
  "(identity_publicKey e1 = identity_publicKey e2 \<longrightarrow> userChannelId e1 = userChannelId e2) \<and>
   (identity_publicKey e = Some [0x0a, 0xb1] \<longrightarrow>
      ''user:'' @ userChannelId e = ''user:0ab1'' \<and>
      (canConnect e \<and> \<not> connected s \<longrightarrow>
         topic (last (channels (connect e s))) = ''user:0ab1''))"
  by (simp add: userChannelId_def toHex_def hexDigit_def connect_proceeds subscribed_channel_def)

theorem userChannelId_deterministic_witness:
  "identity_publicKey env0 = identity_publicKey env0 \<and>
   identity_publicKey env0 = Some [0x0a, 0xb1] \<and> canConnect env0 \<and> \<not> connected initial \<and>
   userChannelId env0 = userChannelId env0 \<and>
   ''user:'' @ userChannelId env0 = ''user:0ab1'' \<and>
   topic (last (channels (connect env0 initial))) = ''user:0ab1''"
  using userChannelId_deterministic [of env0 env0 env0 initial]
  by (simp add: env0_def canConnect_def initial_def)

text \<open>
  C7. \<open>connect()\<close> does nothing when \<open>canConnect()\<close> is false or \<open>connected\<close> is already
  true: the whole state (both references, the flag, every socket and channel object, the
  trace of notifications and network calls) is returned as it was. In particular a second
  \<open>connect()\<close> right after one that could connect changes nothing.
\<close>

theorem connect_is_noop_when_guarded:
  "(\<not> canConnect env \<or> connected s \<longrightarrow> connect env s = s) \<and>
   (canConnect env \<longrightarrow> connect env' (connect env s) = connect env s)"
proof -
  have "connected (connect env s)" if "canConnect env"
    using that by (cases "connected s") (simp_all add: connect_guarded connect_proceeds)
  then show ?thesis by (auto simp add: connect_guarded)
qed

theorem connect_is_noop_when_guarded_witness:
  "canConnect env0 \<and> connected (connect env0 initial) \<and>
   connect env0 (connect env0 initial) = connect env0 initial \<and>
   \<not> canConnect env_none \<and> connect env_none initial = initial"
  using connect_is_noop_when_guarded [of env0 initial env0]
    connect_is_noop_when_guarded [of env_none initial env0]
  by (simp add: canConnect_env0 connect_env0_initial) (simp add: canConnect_def env_none_def)

subsection \<open>The flag is set when the join is issued\<close>

lemma bound_to_joinHooks:
  "bound_to (status_of r) (joinHooks (subscribed_channel k name)) =
     (case r of Ok _ \<Rightarrow> [HandleConnected] | Error _ \<Rightarrow> [HandleError] | Timeout \<Rightarrow> [LogJoinTimeout])"
  by (cases r) (simp_all add: bound_to_def subscribed_channel_def)

lemma connected_fire_join:
  "connected (fire env (data_of r)
      (case r of Ok _ \<Rightarrow> [HandleConnected] | Error _ \<Rightarrow> [HandleError] | Timeout \<Rightarrow> [LogJoinTimeout]) s)
   = connected s"
  by (cases r) (simp_all add: fire_def handleConnected_def handleError_def logJoinTimeout_def emit_def)

text \<open>
  C4. When \<open>connect()\<close> passes its guard, \<open>connected\<close> is true on return while the join of
  the new channel is still pending; the calls it made are, in this order, the "connecting"
  toast, \<open>socket.connect()\<close>, the channel's \<open>join()\<close> and \<open>dispatcher.pingAll()\<close>, the
  last exactly once. Whatever reply the join gets afterwards (ok, error or timeout), the
  flag stays true.
\<close>

theorem connect_sets_connected_and_pings_once:
  assumes "canConnect env" and "\<not> connected s"
  shows "connected (connect env s) \<and>
         channel (connect env s) = Some (length (channels s)) \<and>
         joinState (channels (connect env s) ! length (channels s)) = Joining \<and>
         trace (connect env s) = trace s @
           [ToastInfo (intl_t env ''connection.connecting''),
            SocketConnect (length (sockets s)),
            ChannelJoin (length (channels s)),
            DispatcherPingAll] \<and>
         count_list (drop (length (trace s)) (trace (connect env s))) DispatcherPingAll = 1 \<and>
         connected (deliver env' (JoinReplied (length (channels s)) r) (connect env s))"
proof -
  let ?s' = "connect env s"
  have c: "channels ?s' ! length (channels s) =
           subscribed_channel (length (sockets s)) (''user:'' @ userChannelId env)"
    by (simp add: connect_proceeds [OF assms])
  have l: "length (channels s) < length (channels ?s')"
    by (simp add: connect_proceeds [OF assms])
  have j: "joinState (channels ?s' ! length (channels s)) = Joining"
    by (simp add: c subscribed_channel_def)
  have "connected (deliver env' (JoinReplied (length (channels s)) r) ?s')
        = connected (update_channel (length (channels s)) (\<lambda>x. x\<lparr>joinState := joined_as r\<rparr>) ?s')"
    using l j by (simp add: c bound_to_joinHooks connected_fire_join)
  also have "\<dots> = connected ?s'"
    by (simp add: update_channel_def)
  finally have d: "connected (deliver env' (JoinReplied (length (channels s)) r) ?s')
                   = connected ?s'" .
  have k: "connected ?s'" by (simp add: connect_proceeds [OF assms])
  show ?thesis
    using d k j by (simp add: connect_proceeds [OF assms])
qed

theorem connect_sets_connected_and_pings_once_witness:
  "canConnect env0 \<and> \<not> connected initial \<and> connected (connect env0 initial) \<and>
   trace (connect env0 initial) =
     [ToastInfo ''connection.connecting'', SocketConnect 0, ChannelJoin 0, DispatcherPingAll] \<and>
   connected (deliver env0 (JoinReplied 0 (Error ''refused'')) (connect env0 initial))"
proof -
  have h: "\<not> connected initial" by (simp add: initial_def)
  have e: "channels initial = []" "sockets initial = []" "trace initial = []"
    by (simp_all add: initial_def)
  have t: "intl_t env0 ''connection.connecting'' = ''connection.connecting''"
    by (simp add: env0_def)
  show ?thesis
    using connect_sets_connected_and_pings_once
      [OF canConnect_env0 h, of env0 "Error ''refused''"] canConnect_env0 h
    by (simp add: e t del: deliver.simps)
qed

lemma onChannelError_some:
  "socket s = Some k \<Longrightarrow>
   onChannelError s = socket_disconnect k (emit (ConsoleLog ''channel errored'') s)"
  by (simp add: onChannelError_def Let_def emit_def)

lemma onChannelClose_some:
  "socket s = Some k \<Longrightarrow>
   onChannelClose s = socket_disconnect k (emit (ConsoleLog ''channel closed'') s)"
  by (simp add: onChannelClose_def Let_def emit_def)

lemma bindings_subscribed:
  "bound_to ''phx_error'' (bindings (subscribed_channel k name)) = [OnChannelError]"
  "bound_to ''phx_close'' (bindings (subscribed_channel k name)) = [OnChannelClose]"
  by (simp_all add: bound_to_def subscribed_channel_def)

lemma error_after_connect:
  "run [Connect env0, Deliver env0 (ChannelEvent 0 ''phx_error'' [])] =
     \<lparr>socket = Some 0, channel = Some 0, connected = True,
      sockets = [(opened_socket env0)\<lparr>transport := Closed\<rparr>],
      channels = [subscribed_channel 0 ''user:0ab1''],
      trace = [ToastInfo ''connection.connecting'', SocketConnect 0, ChannelJoin 0,
               DispatcherPingAll, ConsoleLog ''channel errored'', SocketDisconnect 0]\<rparr>"
  by (simp add: run_def connect_env0_initial bindings_subscribed fire_def onChannelError_some
      socket_disconnect_def emit_def update_socket_def)

lemma close_after_connect:
  "run [Connect env0, Deliver env0 (ChannelEvent 0 ''phx_close'' [])] =
     \<lparr>socket = Some 0, channel = Some 0, connected = True,
      sockets = [(opened_socket env0)\<lparr>transport := Closed\<rparr>],
      channels = [subscribed_channel 0 ''user:0ab1''],
      trace = [ToastInfo ''connection.connecting'', SocketConnect 0, ChannelJoin 0,
               DispatcherPingAll, ConsoleLog ''channel closed'', SocketDisconnect 0]\<rparr>"
  by (simp add: run_def connect_env0_initial bindings_subscribed fire_def onChannelClose_some
      socket_disconnect_def emit_def update_socket_def)

subsection \<open>What the flag guarantees\<close>

text \<open>
  C1, as stated, fails. After \<open>connect()\<close> and an error event on the new channel the flag
  is still true, while the socket has been disconnected and the join has never been
  answered with \<open>ok\<close>.
\<close>

theorem connected_without_live_socket_or_confirmed_join:
  "connected (run [Connect env0, Deliver env0 (ChannelEvent 0 ''phx_error'' [])]) \<and>
   \<not> socket_live (run [Connect env0, Deliver env0 (ChannelEvent 0 ''phx_error'' [])]) \<and>
   \<not> join_confirmed (run [Connect env0, Deliver env0 (ChannelEvent 0 ''phx_error'' [])])"
  by (simp add: error_after_connect socket_live_def join_confirmed_def subscribed_channel_def)

text \<open>
  C1, as amended. In every state that a run of public operations and library events can
  reach, \<open>connected\<close> implies that the socket field holds a socket on which \<open>connect()\<close>
  has been called and that the channel field holds a channel on which \<open>join()\<close> has been
  called. Neither the liveness of the socket nor the outcome of the join is implied.
\<close>

theorem connected_implies_started_socket_and_issued_join:
  "connected (run acts) \<longrightarrow> socket_started (run acts) \<and> join_issued (run acts)"
  using refs_ok_run [of acts]
  by (auto simp add: refs_ok_def socket_started_def join_issued_def split: option.splits)

theorem connected_implies_started_socket_and_issued_join_witness:
  "connected (run [Connect env0, Deliver env0 (ChannelEvent 0 ''phx_error'' [])]) \<and>
   socket_started (run [Connect env0, Deliver env0 (ChannelEvent 0 ''phx_error'' [])]) \<and>
   join_issued (run [Connect env0, Deliver env0 (ChannelEvent 0 ''phx_error'' [])])"
proof -
  have c: "connected (run [Connect env0, Deliver env0 (ChannelEvent 0 ''phx_error'' [])])"
    by (simp add: error_after_connect)
  with connected_implies_started_socket_and_issued_join
    [of "[Connect env0, Deliver env0 (ChannelEvent 0 ''phx_error'' [])]"]
  show ?thesis by blast
qed

subsection \<open>Sending without a channel\<close>

text \<open>
  C2, as stated, fails. With no channel, \<open>send\<close> returns what \<open>console.error\<close> returns,
  which is \<open>undefined\<close>: the caller gets no future, rejected or otherwise.
\<close>

theorem send_without_channel_returns_no_future:
  "channel initial = None \<and> \<not> is_future (fst (send env0 ''peer1'' ''hello'' initial))"
  by (simp add: send_def initial_def)

text \<open>
  C2, as amended. While the channel field is unset, \<open>send(to, data)\<close> writes the localized
  "not connected" message to the error console and returns \<open>undefined\<close>; it performs no
  network call and touches no socket or channel object.
\<close>

theorem send_without_channel_logs_and_returns_undefined:
  assumes "channel s = None"
  shows "send env recipient data s =
           (Undefined, emit (ConsoleError (intl_t env ''connection.errors.send.notConnected'')) s) \<and>
         filter is_network (trace (snd (send env recipient data s))) = filter is_network (trace s) \<and>
         sockets (snd (send env recipient data s)) = sockets s \<and>
         channels (snd (send env recipient data s)) = channels s"
  using assms by (simp add: send_def emit_def)

theorem send_without_channel_logs_and_returns_undefined_witness:
  "channel initial = None \<and>
   send env0 ''peer1'' ''hello'' initial =
     (Undefined, emit (ConsoleError ''connection.errors.send.notConnected'') initial) \<and>
   filter is_network (trace (snd (send env0 ''peer1'' ''hello'' initial))) = []"
proof -
  have h: "channel initial = None" by (simp add: initial_def)
  have t: "intl_t env0 ''connection.errors.send.notConnected'' = ''connection.errors.send.notConnected''"
    by (simp add: env0_def)
  have e: "trace initial = []" by (simp add: initial_def)
  show ?thesis
    using send_without_channel_logs_and_returns_undefined [OF h, of env0 "''peer1''" "''hello''"] h
    by (simp add: t e emit_def)
qed

subsection \<open>Connecting without a key\<close>

text \<open>
  C3, as stated, fails. The guard of \<open>connect()\<close> asks \<open>identity.exists()\<close> and never
  looks at the key: with an identity that exists and a null public key, \<open>connect()\<close>
  creates a socket, subscribes to a channel and sets the flag.
\<close>

theorem connect_proceeds_without_public_key:
  "identity_publicKey env_nokey = None \<and>
   socket (connect env_nokey initial) = Some 0 \<and>
   channel (connect env_nokey initial) = Some 0 \<and>
   connected (connect env_nokey initial)"
proof -
  have "canConnect env_nokey" by (simp add: canConnect_def env_nokey_def)
  moreover have "\<not> connected initial" by (simp add: initial_def)
  ultimately show ?thesis
    by (simp add: connect_proceeds) (simp add: env_nokey_def initial_def)
qed

text \<open>
  C3, as amended. If the identity collaborator reports that no identity exists
  (\<open>exists()\<close> is false), \<open>connect()\<close> creates no socket, issues no channel subscription,
  emits nothing and leaves \<open>connected\<close> as it was. A null public key by itself only makes
  \<open>userChannelId\<close> return the empty string.
\<close>

theorem connect_without_identity_creates_nothing:
  "(\<not> identity_exists env \<longrightarrow>
      sockets (connect env s) = sockets s \<and> channels (connect env s) = channels s \<and>
      socket (connect env s) = socket s \<and> channel (connect env s) = channel s \<and>
      connected (connect env s) = connected s \<and> trace (connect env s) = trace s) \<and>
   (identity_publicKey env = None \<longrightarrow> userChannelId env = [])"
  by (simp add: connect_def canConnect_def userChannelId_def)

theorem connect_without_identity_creates_nothing_witness:
  "\<not> identity_exists env_none \<and> identity_publicKey env_none = None \<and>
   sockets (connect env_none initial) = [] \<and> channels (connect env_none initial) = [] \<and>
   socket (connect env_none initial) = None \<and> channel (connect env_none initial) = None \<and>
   \<not> connected (connect env_none initial) \<and> userChannelId env_none = []"
proof -
  have h: "\<not> identity_exists env_none" "identity_publicKey env_none = None"
    by (simp_all add: env_none_def)
  have e: "sockets initial = []" "channels initial = []" "socket initial = None"
    "channel initial = None" "\<not> connected initial"
    by (simp_all add: initial_def)
  show ?thesis
    using connect_without_identity_creates_nothing [of env_none initial] h
    by (simp add: e)
qed

subsection \<open>Channel faults\<close>

text \<open>
  C5, as stated, fails. After \<open>connect()\<close>, an error event or a close event on the channel
  leaves \<open>connected\<close> true: neither handler writes the flag.
\<close>

theorem channel_fault_leaves_connected_set:
  "connected (deliver env0 (ChannelEvent 0 ''phx_error'' []) (connect env0 initial)) \<and>
   connected (deliver env0 (ChannelEvent 0 ''phx_close'' []) (connect env0 initial))"
  using error_after_connect close_after_connect
  by (simp add: run_def)

text \<open>
  C5, as amended. For every prior state, the handler of a channel error or a channel close
  leaves \<open>connected\<close> unchanged and, when the socket field is set, disconnects that socket
  (its last call is \<open>socket.disconnect()\<close>). The flag is false once the socket's close event
  has reached \<open>onSocketClose\<close>.
\<close>

theorem channel_fault_disconnects_socket_only:
  "connected (onChannelError s) = connected s \<and>
   connected (onChannelClose s) = connected s \<and>
   (socket s = Some k \<and> k < length (sockets s) \<longrightarrow>
      transport (sockets (onChannelError s) ! k) = Closed \<and>
      transport (sockets (onChannelClose s) ! k) = Closed \<and>
      last (trace (onChannelError s)) = SocketDisconnect k \<and>
      last (trace (onChannelClose s)) = SocketDisconnect k) \<and>
   \<not> connected (onSocketClose env (onChannelError s)) \<and>
   \<not> connected (onSocketClose env (onChannelClose s))"
  by (simp add: onChannelError_def onChannelClose_def onSocketClose_def socket_disconnect_def
      update_socket_def emit_def Let_def split: option.splits)

theorem channel_fault_disconnects_socket_only_witness:
  "socket (connect env0 initial) = Some 0 \<and> 0 < length (sockets (connect env0 initial)) \<and>
   connected (onChannelError (connect env0 initial)) \<and>
   transport (sockets (onChannelError (connect env0 initial)) ! 0) = Closed \<and>
   \<not> connected (onSocketClose env0 (onChannelError (connect env0 initial)))"
proof -
  have h: "socket (connect env0 initial) = Some 0" "0 < length (sockets (connect env0 initial))"
    "connected (connect env0 initial)"
    by (simp_all add: connect_env0_initial)
  show ?thesis
    using channel_fault_disconnects_socket_only [of "connect env0 initial" 0 env0] h
    by simp
qed

subsection \<open>Sending after the channel has closed\<close>

text \<open>No handler writes the channel field, and no operation clears it.\<close>

lemma channel_call [simp]: "channel (call env d s h) = channel s"
  by (cases h)
    (simp_all add: onSocketError_def onSocketClose_def onChannelError_def onChannelClose_def
      handleMessage_def handleConnected_def handleError_def logJoinTimeout_def emit_def Let_def
      socket_disconnect_def update_socket_def split: option.splits)

lemma channel_fire [simp]: "channel (fire env d hs s) = channel s"
  unfolding fire_def by (induction hs arbitrary: s) simp_all

lemma channel_deliver [simp]: "channel (deliver env e s) = channel s"
  by (cases e) (simp_all add: update_socket_def update_channel_def)

lemma channel_step_kept: "channel s \<noteq> None \<Longrightarrow> channel (step s a) \<noteq> None"
proof (cases a)
  case (Send env recipient data)
  assume "channel s \<noteq> None"
  then show ?thesis using Send by (auto simp add: send_def emit_def)
next
  case (Connect env)
  assume "channel s \<noteq> None"
  then show ?thesis using Connect
    by (cases "\<not> canConnect env \<or> connected s") (simp_all add: connect_guarded connect_proceeds)
next
  case (Subscribe env name)
  assume "channel s \<noteq> None"
  then show ?thesis using Subscribe
    by (cases "socket s") (simp_all add: subscribe_none subscribe_some emit_def)
next
  case (Deliver env e)
  assume "channel s \<noteq> None"
  then show ?thesis using Deliver by simp
qed

lemma channel_foldl_kept: "channel s \<noteq> None \<Longrightarrow> channel (foldl step s acts) \<noteq> None"
proof (induction acts arbitrary: s)
  case Nil
  then show ?case by simp
next
  case (Cons a acts)
  from Cons.prems have "channel (step s a) \<noteq> None" by (rule channel_step_kept)
  then have "channel (foldl step (step s a) acts) \<noteq> None" by (rule Cons.IH)
  then show ?case by simp
qed

lemma send_some:
  "channel s = Some c \<Longrightarrow>
   send env recipient data s =
     (Promise (length (trace s)),
      emit (ChannelPush c ''chat'' \<lparr>to = recipient, message = data\<rparr>) s)"
  by (simp add: send_def)

text \<open>
  C6, as stated, fails. After \<open>connect()\<close> and a close event on the channel, with no second
  \<open>connect()\<close>, \<open>send\<close> returns a promise and pushes \<open>chat\<close> on the closed channel.
\<close>

theorem send_after_channel_close_does_not_fail:
  "is_future (fst (send env0 ''peer1'' ''hello''
      (run [Connect env0, Deliver env0 (ChannelEvent 0 ''phx_close'' [])]))) \<and>
   last (trace (snd (send env0 ''peer1'' ''hello''
      (run [Connect env0, Deliver env0 (ChannelEvent 0 ''phx_close'' [])])))) =
     ChannelPush 0 ''chat'' \<lparr>to = ''peer1'', message = ''hello''\<rparr>"
  by (simp add: close_after_connect send_def emit_def)

text \<open>
  C6, as amended. A close event on the channel leaves the channel field as it was. Every
  later \<open>send()\<close>, after any further operations and events, still finds a channel:
  it returns a promise and pushes \<open>chat\<close>, and does not take the "not connected" branch.
\<close>

theorem send_after_channel_close_still_pushes:
  assumes "channel s = Some c"
  shows "channel (onChannelClose s) = Some c \<and>
         send env recipient data (onChannelClose s) =
           (Promise (length (trace (onChannelClose s))),
            emit (ChannelPush c ''chat'' \<lparr>to = recipient, message = data\<rparr>) (onChannelClose s)) \<and>
         is_future (fst (send env recipient data (foldl step (onChannelClose s) acts)))"
proof -
  have k: "channel (onChannelClose s) = Some c"
    using assms channel_call [of env "[]" s OnChannelClose] by simp
  then have "channel (foldl step (onChannelClose s) acts) \<noteq> None"
    by (simp add: channel_foldl_kept)
  then obtain c' where "channel (foldl step (onChannelClose s) acts) = Some c'" by blast
  then have "is_future (fst (send env recipient data (foldl step (onChannelClose s) acts)))"
    by (simp add: send_some)
  with k show ?thesis by (simp add: send_some)
qed

theorem send_after_channel_close_still_pushes_witness:
  "channel (connect env0 initial) = Some 0 \<and>
   channel (onChannelClose (connect env0 initial)) = Some 0 \<and>
   is_future (fst (send env0 ''peer1'' ''hello''
      (foldl step (onChannelClose (connect env0 initial))
         [Deliver env0 (SocketClosed 0), Send env0 ''peer2'' ''again''])))"
proof -
  have h: "channel (connect env0 initial) = Some 0" by (simp add: connect_env0_initial)
  show ?thesis
    using send_after_channel_close_still_pushes [OF h, of env0 "''peer1''" "''hello''"
        "[Deliver env0 (SocketClosed 0), Send env0 ''peer2'' ''again'']"] h
    by blast
qed

subsection \<open>Sending on a channel\<close>

lemma settled_stays: "p \<noteq> Pending \<Longrightarrow> foldl (push_receive env) p rs = p"
proof (induction rs arbitrary: p)
  case Nil
  then show ?case by simp
next
  case (Cons r rs)
  from Cons.prems have "push_receive env p r = p"
    by (cases p; cases r) simp_all
  with Cons show ?case by simp
qed

text \<open>
  C8. With a channel in the channel field, \<open>send(to, data)\<close> pushes the event \<open>chat\<close>
  with the payload \<open>{to, message: data}\<close> on it and returns a promise. The first reply to
  the push settles the promise, and later ones change nothing: \<open>ok\<close> resolves it with the
  server's reply, \<open>error\<close> rejects it with the server's reply, \<open>timeout\<close> rejects it with
  \<open>{reason: t('models.message.errors.timeout')}\<close>.
\<close>

theorem send_pushes_chat_and_settles_once:
  assumes "channel s = Some c"
  shows "send env recipient data s =
           (Promise (length (trace s)),
            emit (ChannelPush c ''chat'' \<lparr>to = recipient, message = data\<rparr>) s) \<and>
         foldl (push_receive env) Pending (r # rs) =
           (case r of
              Ok reply \<Rightarrow> Resolved (Reply reply)
            | Error reply \<Rightarrow> Rejected (Reply reply)
            | Timeout \<Rightarrow> Rejected (Reason (intl_t env ''models.message.errors.timeout''))) \<and>
         foldl (push_receive env) Pending (r # rs) \<noteq> Pending"
  using assms by (cases r) (simp_all add: send_some settled_stays)

theorem send_pushes_chat_and_settles_once_witness:
  "channel (connect env0 initial) = Some 0 \<and>
   send env0 ''peer1'' ''hello'' (connect env0 initial) =
     (Promise 4, emit (ChannelPush 0 ''chat'' \<lparr>to = ''peer1'', message = ''hello''\<rparr>)
        (connect env0 initial)) \<and>
   foldl (push_receive env0) Pending [Ok ''delivered'', Timeout] = Resolved (Reply ''delivered'')"
proof -
  have h: "channel (connect env0 initial) = Some 0" by (simp add: connect_env0_initial)
  have l: "length (trace (connect env0 initial)) = 4" by (simp add: connect_env0_initial)
  show ?thesis
    using send_pushes_chat_and_settles_once [OF h, of env0 "''peer1''" "''hello''"
        "Ok ''delivered''" "[Timeout]"] h
    by (simp add: l)
qed

subsection \<open>One channel reference\<close>

text \<open>
  C10. The service has a single channel field. When the socket field is set,
  \<open>subscribeToChannel\<close> stores the reference of the channel it has just created there.
  The channel referenced before stays in the heap exactly as it was (the only call made is
  the \<open>join()\<close> of the new channel), and the service no longer refers to it.
\<close>

theorem subscribe_overwrites_channel_reference:
  assumes "socket s = Some k"
  shows "channel (subscribeToChannel env name s) = Some (length (channels s)) \<and>
         length (channels (subscribeToChannel env name s)) = Suc (length (channels s)) \<and>
         take (length (channels s)) (channels (subscribeToChannel env name s)) = channels s \<and>
         trace (subscribeToChannel env name s) = trace s @ [ChannelJoin (length (channels s))] \<and>
         sockets (subscribeToChannel env name s) = sockets s \<and>
         (channel s = Some c \<and> c < length (channels s) \<longrightarrow>
            channel (subscribeToChannel env name s) \<noteq> Some c \<and>
            channels (subscribeToChannel env name s) ! c = channels s ! c)"
  by (simp add: subscribe_some [OF assms] nth_append)

theorem subscribe_overwrites_channel_reference_witness:
  "socket (connect env0 initial) = Some 0 \<and> channel (connect env0 initial) = Some 0 \<and>
   channel (subscribeToChannel env0 ''room:lobby,user:0ab1'' (connect env0 initial)) = Some 1 \<and>
   channels (subscribeToChannel env0 ''room:lobby,user:0ab1'' (connect env0 initial)) ! 0 =
     subscribed_channel 0 ''user:0ab1''"
proof -
  have h: "socket (connect env0 initial) = Some 0" by (simp add: connect_env0_initial)
  have e: "channel (connect env0 initial) = Some 0"
    "channels (connect env0 initial) = [subscribed_channel 0 ''user:0ab1'']"
    by (simp_all add: connect_env0_initial)
  show ?thesis
    using subscribe_overwrites_channel_reference
      [OF h, of env0 "''room:lobby,user:0ab1''" 0] h
    by (simp add: e)
qed

end
